theory Spec2Isabelle
  imports Complex_Main
begin

section \<open>JavaScript primitives used by the calculators\<close>

text \<open>
  The sources are TypeScript/JavaScript. Integer-valued numbers are modelled as \<open>int\<close>,
  fractional ones as \<open>real\<close> (the IEEE doubles of the runtime are idealised as reals).
  The remainder operator \<^verbatim>\<open>%\<close> truncates towards zero: its result carries the sign of
  the dividend, so \<^verbatim>\<open>-1 % 10\<close> is \<^verbatim>\<open>-1\<close>.
  Reading an array outside its bounds, or an object at a key it does not have, gives
  \<^verbatim>\<open>undefined\<close>: this is \<open>None\<close> here. Reading a property of \<^verbatim>\<open>undefined\<close> throws a
  TypeError.
\<close>

datatype js_error = TypeError | Error

text \<open>
  A call either throws or returns; \<open>returned f x\<close> reads the field \<open>f\<close> of what a call
  returned, and is \<open>None\<close> when the call threw.
\<close>

definition returned :: "('r \<Rightarrow> 'a) \<Rightarrow> js_error + 'r \<Rightarrow> 'a option" where
  "returned f x = (case x of Inl e \<Rightarrow> None | Inr r \<Rightarrow> Some (f r))"

definition js_rem :: "int \<Rightarrow> int \<Rightarrow> int" where
  "js_rem a b = sgn a * (\<bar>a\<bar> mod \<bar>b\<bar>)"

definition js_index :: "'a list \<Rightarrow> int \<Rightarrow> 'a option" where
  "js_index xs i = (if 0 \<le> i \<and> i < int (length xs) then Some (xs ! nat i) else None)"

definition js_get :: "('k \<rightharpoonup> 'v) \<Rightarrow> 'k option \<Rightarrow> 'v option" where
  "js_get obj key = (case key of None \<Rightarrow> None | Some k \<Rightarrow> obj k)"

fun indexOf_from :: "'a list \<Rightarrow> 'a \<Rightarrow> int \<Rightarrow> int" where
  "indexOf_from [] x i = -1"
| "indexOf_from (y # ys) x i = (if y = x then i else indexOf_from ys x (i + 1))"

definition js_indexOf :: "'a list \<Rightarrow> 'a option \<Rightarrow> int" where
  "js_indexOf xs key = (case key of None \<Rightarrow> -1 | Some x \<Rightarrow> indexOf_from xs x 0)"

definition js_trunc :: "real \<Rightarrow> int" where
  "js_trunc x = (if 0 \<le> x then \<lfloor>x\<rfloor> else \<lceil>x\<rceil>)"

definition js_fmod :: "real \<Rightarrow> real \<Rightarrow> real" where
  "js_fmod x y = x - y * of_int (js_trunc (x / y))"

subsection \<open>Dates\<close>

text \<open>
  A \<^verbatim>\<open>Date\<close> is a number of milliseconds on the local civil time line; the time zone
  offset is taken to be constant, so the difference of two dates is the difference of
  their civil times. \<open>days_from_civil\<close> is the day number of a proleptic Gregorian date
  (day 0 is 1970-01-01), \<open>MakeDay\<close> is the day number the \<^verbatim>\<open>Date\<close> constructor computes
  from a year, a zero-based month and a day of the month (months and days out of range
  carry over), and a two-digit year passed to the constructor means 19xx.
\<close>

definition days_from_civil :: "int \<Rightarrow> int \<Rightarrow> int \<Rightarrow> int" where
  "days_from_civil y m d =
     (let y' = (if m \<le> 2 then y - 1 else y);
          era = y' div 400;
          yoe = y' - era * 400;
          doy = (153 * (if m > 2 then m - 3 else m + 9) + 2) div 5 + d - 1;
          doe = yoe * 365 + yoe div 4 - yoe div 100 + doy
      in era * 146097 + doe - 719468)"

definition MakeDay :: "int \<Rightarrow> int \<Rightarrow> int \<Rightarrow> int" where
  "MakeDay y m0 d = days_from_civil (y + m0 div 12) (m0 mod 12 + 1) 1 + d - 1"

definition msPerDay :: int where
  "msPerDay = 1000 * 60 * 60 * 24"

definition new_Date :: "int \<Rightarrow> int \<Rightarrow> int \<Rightarrow> int \<Rightarrow> int \<Rightarrow> int" where
  "new_Date y m0 d h mi =
     (let y' = (if 0 \<le> y \<and> y \<le> 99 then 1900 + y else y)
      in MakeDay y' m0 d * msPerDay + (h * 60 + mi) * 60 * 1000)"

definition civil_from_days :: "int \<Rightarrow> int \<times> int \<times> int" where
  "civil_from_days z0 =
     (let z = z0 + 719468;
          era = z div 146097;
          doe = z - era * 146097;
          yoe = (doe - doe div 1460 + doe div 36524 - doe div 146096) div 365;
          doy = doe - (365 * yoe + yoe div 4 - yoe div 100);
          mp = (5 * doy + 2) div 153;
          d = doy - (153 * mp + 2) div 5 + 1;
          m = (if mp < 10 then mp + 3 else mp - 9);
          y = yoe + era * 400 + (if m \<le> 2 then 1 else 0)
      in (y, m, d))"

definition getFullYear :: "int \<Rightarrow> int" where
  "getFullYear t = fst (civil_from_days (t div msPerDay))"

definition getMonth :: "int \<Rightarrow> int" where
  "getMonth t = fst (snd (civil_from_days (t div msPerDay))) - 1"

definition getHours :: "int \<Rightarrow> int" where
  "getHours t = (t mod msPerDay) div (60 * 60 * 1000)"

definition getDay :: "int \<Rightarrow> int" where
  "getDay t = (t div msPerDay + 4) mod 7"

section \<open>The sexagenary tables\<close>

text \<open>
  The characters of the two vocabularies. The ten stems, in order:
  Jia, Yi, Bing, Ding, Wu, Ji, Geng, Xin, Ren, Gui. The twelve branches, in order:
  Zi, Chou, Yin, Mao, Chen, Si, Wu_horse, Wei, Shen, You, Xu, Hai (\<open>Wu_horse\<close> is the
  seventh branch, a different character from the fifth stem \<open>Wu\<close>). The sources keep
  them as one-character strings, which is why one type holds both.
\<close>

datatype glyph =
    Jia | Yi | Bing | Ding | Wu | Ji | Geng | Xin | Ren | Gui
  | Zi | Chou | Yin | Mao | Chen | Si | Wu_horse | Wei | Shen | You | Xu | Hai

datatype element = Wood | Fire | Earth | Metal | Water

text \<open>
  The ten relationship labels: BiJian (peer), JieCai, ShiShen, ShangGuan, PianCai,
  ZhengCai, QiSha, ZhengGuan, PianYin, ZhengYin.
\<close>

datatype god =
    BiJian | JieCai | ShiShen | ShangGuan | PianCai
  | ZhengCai | QiSha | ZhengGuan | PianYin | ZhengYin

record pillar =
  stem :: "glyph option"
  branch :: "glyph option"

definition HEAVENLY_STEMS :: "glyph list" where
  "HEAVENLY_STEMS = [Jia, Yi, Bing, Ding, Wu, Ji, Geng, Xin, Ren, Gui]"

definition EARTHLY_BRANCHES :: "glyph list" where
  "EARTHLY_BRANCHES = [Zi, Chou, Yin, Mao, Chen, Si, Wu_horse, Wei, Shen, You, Xu, Hai]"

definition STEM_ELEMENTS :: "glyph \<rightharpoonup> element" where
  "STEM_ELEMENTS = map_of
     [(Jia, Wood), (Yi, Wood), (Bing, Fire), (Ding, Fire), (Wu, Earth),
      (Ji, Earth), (Geng, Metal), (Xin, Metal), (Ren, Water), (Gui, Water)]"

definition BRANCH_ELEMENTS :: "glyph \<rightharpoonup> element" where
  "BRANCH_ELEMENTS = map_of
     [(Zi, Water), (Chou, Earth), (Yin, Wood), (Mao, Wood), (Chen, Earth),
      (Si, Fire), (Wu_horse, Fire), (Wei, Earth), (Shen, Metal), (You, Metal),
      (Xu, Earth), (Hai, Water)]"

definition HIDDEN_STEMS :: "glyph \<rightharpoonup> glyph list" where
  "HIDDEN_STEMS = map_of
     [(Zi, [Gui]),
      (Chou, [Ji, Gui, Xin]),
      (Yin, [Jia, Bing, Wu]),
      (Mao, [Yi]),
      (Chen, [Wu, Yi, Gui]),
      (Si, [Bing, Wu, Geng]),
      (Wu_horse, [Ding, Ji]),
      (Wei, [Ji, Ding, Yi]),
      (Shen, [Geng, Wu, Ren]),
      (You, [Xin]),
      (Xu, [Wu, Xin, Ding]),
      (Hai, [Ren, Jia])]"

definition TEN_GODS :: "glyph \<rightharpoonup> (glyph \<rightharpoonup> god)" where
  "TEN_GODS = map_of
     [(Jia, map_of [(Jia, BiJian), (Yi, JieCai), (Bing, ShiShen), (Ding, ShangGuan), (Wu, PianCai),
                    (Ji, ZhengCai), (Geng, QiSha), (Xin, ZhengGuan), (Ren, PianYin), (Gui, ZhengYin)]),
      (Yi, map_of [(Jia, JieCai), (Yi, BiJian), (Bing, ShangGuan), (Ding, ShiShen), (Wu, ZhengCai),
                   (Ji, PianCai), (Geng, ZhengGuan), (Xin, QiSha), (Ren, ZhengYin), (Gui, PianYin)]),
      (Bing, map_of [(Jia, PianYin), (Yi, ZhengYin), (Bing, BiJian), (Ding, JieCai), (Wu, ShiShen),
                     (Ji, ShangGuan), (Geng, PianCai), (Xin, ZhengCai), (Ren, QiSha), (Gui, ZhengGuan)]),
      (Ding, map_of [(Jia, ZhengYin), (Yi, PianYin), (Bing, JieCai), (Ding, BiJian), (Wu, ShangGuan),
                     (Ji, ShiShen), (Geng, ZhengCai), (Xin, PianCai), (Ren, ZhengGuan), (Gui, QiSha)]),
      (Wu, map_of [(Jia, QiSha), (Yi, ZhengGuan), (Bing, PianYin), (Ding, ZhengYin), (Wu, BiJian),
                   (Ji, JieCai), (Geng, ShiShen), (Xin, ShangGuan), (Ren, PianCai), (Gui, ZhengCai)]),
      (Ji, map_of [(Jia, ZhengGuan), (Yi, QiSha), (Bing, ZhengYin), (Ding, PianYin), (Wu, JieCai),
                   (Ji, BiJian), (Geng, ShangGuan), (Xin, ShiShen), (Ren, ZhengCai), (Gui, PianCai)]),
      (Geng, map_of [(Jia, PianCai), (Yi, ZhengCai), (Bing, QiSha), (Ding, ZhengGuan), (Wu, PianYin),
                     (Ji, ZhengYin), (Geng, BiJian), (Xin, JieCai), (Ren, ShiShen), (Gui, ShangGuan)]),
      (Xin, map_of [(Jia, ZhengCai), (Yi, PianCai), (Bing, ZhengGuan), (Ding, QiSha), (Wu, ZhengYin),
                    (Ji, PianYin), (Geng, JieCai), (Xin, BiJian), (Ren, ShangGuan), (Gui, ShiShen)]),
      (Ren, map_of [(Jia, ShiShen), (Yi, ShangGuan), (Bing, PianCai), (Ding, ZhengCai), (Wu, QiSha),
                    (Ji, ZhengGuan), (Geng, PianYin), (Xin, ZhengYin), (Ren, BiJian), (Gui, JieCai)]),
      (Gui, map_of [(Jia, ShangGuan), (Yi, ShiShen), (Bing, ZhengCai), (Ding, PianCai), (Wu, ZhengGuan),
                    (Ji, QiSha), (Geng, ZhengYin), (Xin, PianYin), (Ren, JieCai), (Gui, BiJian)])]"

section \<open>The pillar calculator of bazi-calculator.ts\<close>

definition calculateYearPillar :: "int \<Rightarrow> pillar" where
  "calculateYearPillar year =
     (let baseYear = 1984;
          offset = js_rem (year - baseYear) 60;
          stemIndex = js_rem offset 10;
          branchIndex = js_rem offset 12
      in \<lparr>stem = js_index HEAVENLY_STEMS stemIndex,
          branch = js_index EARTHLY_BRANCHES branchIndex\<rparr>)"

definition calculateMonthPillar :: "int \<Rightarrow> int \<Rightarrow> pillar" where
  "calculateMonthPillar year month =
     (let yearPillar = calculateYearPillar year;
          yearStemIndex = js_indexOf HEAVENLY_STEMS (stem yearPillar);
          monthStemStart = js_rem (yearStemIndex * 2 + 2) 10;
          monthStemIndex = js_rem (monthStemStart + month - 1) 10;
          monthBranchIndex = js_rem (month + 1) 12
      in \<lparr>stem = js_index HEAVENLY_STEMS monthStemIndex,
          branch = js_index EARTHLY_BRANCHES monthBranchIndex\<rparr>)"

definition calculateDayPillar :: "int \<Rightarrow> pillar" where
  "calculateDayPillar date =
     (let baseDate = new_Date 1900 0 31 0 0;
          daysDiff = (date - baseDate) div msPerDay;
          offset = js_rem (daysDiff + 36) 60;
          stemIndex = js_rem offset 10;
          branchIndex = js_rem offset 12
      in \<lparr>stem = js_index HEAVENLY_STEMS stemIndex,
          branch = js_index EARTHLY_BRANCHES branchIndex\<rparr>)"

definition calculateHourPillar :: "glyph option \<Rightarrow> int \<Rightarrow> pillar" where
  "calculateHourPillar dayStem hour =
     (let dayStemIndex = js_indexOf HEAVENLY_STEMS dayStem;
          hourBranchIndex = js_rem ((hour + 1) div 2) 12;
          hourStemStart = js_rem (dayStemIndex * 2 + 2) 10;
          hourStemIndex = js_rem (hourStemStart + (hour + 1) div 2) 10
      in \<lparr>stem = js_index HEAVENLY_STEMS hourStemIndex,
          branch = js_index EARTHLY_BRANCHES hourBranchIndex\<rparr>)"

text \<open>
  The four pillars \<^verbatim>\<open>calculateBazi\<close> computes from its \<^verbatim>\<open>workingDate\<close> (the birth date
  with the hours and minutes of the birth time set), in the order year, month, day, hour.
\<close>

definition calculateBazi_pillars :: "int \<Rightarrow> pillar list" where
  "calculateBazi_pillars workingDate =
     (let yearPillar = calculateYearPillar (getFullYear workingDate);
          monthPillar = calculateMonthPillar (getFullYear workingDate) (getMonth workingDate + 1);
          dayPillar = calculateDayPillar workingDate;
          hourPillar = calculateHourPillar (stem dayPillar) (getHours workingDate)
      in [yearPillar, monthPillar, dayPillar, hourPillar])"

section \<open>Element tally and relationship classification of bazi-calculator.ts\<close>

record elements =
  wood :: real
  fire :: real
  earth :: real
  metal :: real
  water :: real

text \<open>
  One arm of the chains \<^verbatim>\<open>if (e === ...) elements.wood += w; else if ...\<close>: an element
  that is \<^verbatim>\<open>undefined\<close> matches no arm and leaves the buckets as they are.
\<close>

definition add_element :: "element option \<Rightarrow> real \<Rightarrow> elements \<Rightarrow> elements" where
  "add_element e w els =
     (case e of
        None \<Rightarrow> els
      | Some Wood \<Rightarrow> els\<lparr>wood := wood els + w\<rparr>
      | Some Fire \<Rightarrow> els\<lparr>fire := fire els + w\<rparr>
      | Some Earth \<Rightarrow> els\<lparr>earth := earth els + w\<rparr>
      | Some Metal \<Rightarrow> els\<lparr>metal := metal els + w\<rparr>
      | Some Water \<Rightarrow> els\<lparr>water := water els + w\<rparr>)"

text \<open>
  The body of \<^verbatim>\<open>pillars.forEach\<close> in \<^verbatim>\<open>calculateFiveElements\<close>. A branch that is not a
  key of \<open>HIDDEN_STEMS\<close> makes \<^verbatim>\<open>hiddenStems.forEach\<close> throw.
\<close>

definition tally_pillar :: "pillar \<Rightarrow> elements \<Rightarrow> js_error + elements" where
  "tally_pillar p els =
     (let stemElement = js_get STEM_ELEMENTS (stem p);
          els1 = add_element stemElement 1 els;
          branchElement = js_get BRANCH_ELEMENTS (branch p);
          els2 = add_element branchElement 1 els1
      in case js_get HIDDEN_STEMS (branch p) of
           None \<Rightarrow> Inl TypeError
         | Some hiddenStems \<Rightarrow>
             Inr (fold (\<lambda>s. add_element (STEM_ELEMENTS s) (1 / 2)) hiddenStems els2))"

fun tally_pillars :: "pillar list \<Rightarrow> elements \<Rightarrow> js_error + elements" where
  "tally_pillars [] els = Inr els"
| "tally_pillars (p # ps) els =
     (case tally_pillar p els of Inl e \<Rightarrow> Inl e | Inr els' \<Rightarrow> tally_pillars ps els')"

definition calculateFiveElements :: "pillar list \<Rightarrow> js_error + elements" where
  "calculateFiveElements pillars =
     tally_pillars pillars \<lparr>wood = 0, fire = 0, earth = 0, metal = 0, water = 0\<rparr>"

definition elements_sum :: "elements \<Rightarrow> real" where
  "elements_sum els = wood els + fire els + earth els + metal els + water els"

text \<open>
  The number of hidden stems the table holds for the branch of a pillar, their total
  over a chart, and the sum of the five buckets of a chart's tally (\<open>None\<close> when the
  tally throws).
\<close>

definition hidden_of :: "pillar \<Rightarrow> nat" where
  "hidden_of p = (case js_get HIDDEN_STEMS (branch p) of None \<Rightarrow> 0 | Some hs \<Rightarrow> length hs)"

definition hiddenStemCount :: "pillar list \<Rightarrow> nat" where
  "hiddenStemCount pillars = sum_list (map hidden_of pillars)"

text \<open>
  The bucket of an element, and how often an element occurs in a chart: as the element
  of a pillar's stem, as the element of a pillar's branch, and as the element of a hidden
  stem of a pillar's branch.
\<close>

definition bucket :: "element \<Rightarrow> elements \<Rightarrow> real" where
  "bucket e els =
     (case e of Wood \<Rightarrow> wood els | Fire \<Rightarrow> fire els | Earth \<Rightarrow> earth els
      | Metal \<Rightarrow> metal els | Water \<Rightarrow> water els)"

definition stem_count :: "element \<Rightarrow> pillar list \<Rightarrow> nat" where
  "stem_count e pillars =
     length (filter (\<lambda>p. js_get STEM_ELEMENTS (stem p) = Some e) pillars)"

definition branch_count :: "element \<Rightarrow> pillar list \<Rightarrow> nat" where
  "branch_count e pillars =
     length (filter (\<lambda>p. js_get BRANCH_ELEMENTS (branch p) = Some e) pillars)"

definition hidden_with :: "element \<Rightarrow> pillar \<Rightarrow> nat" where
  "hidden_with e p =
     (case js_get HIDDEN_STEMS (branch p) of
        None \<Rightarrow> 0
      | Some hs \<Rightarrow> length (filter (\<lambda>s. STEM_ELEMENTS s = Some e) hs))"

definition hidden_count :: "element \<Rightarrow> pillar list \<Rightarrow> nat" where
  "hidden_count e pillars = sum_list (map (hidden_with e) pillars)"

definition tally_sum :: "pillar list \<Rightarrow> real option" where
  "tally_sum pillars =
     (case calculateFiveElements pillars of Inl e \<Rightarrow> None | Inr els \<Rightarrow> Some (elements_sum els))"

text \<open>A pillar of the two vocabularies: its stem is one of the ten, its branch one of the twelve.\<close>

definition wellformed_pillar :: "pillar \<Rightarrow> bool" where
  "wellformed_pillar p =
     (stem p \<in> Some ` set HEAVENLY_STEMS \<and> branch p \<in> Some ` set EARTHLY_BRANCHES)"

text \<open>
  \<^verbatim>\<open>calculateTenGods\<close>. The four keys of the result, in order: NianZhu (year pillar),
  YueZhu (month), RiZhu (day), ShiZhu (hour). An entry is the string
  \<^verbatim>\<open>`${character}(${label})`\<close>, kept here as the pair of the character and of the label
  looked up for it; a label \<open>None\<close> is the text \<^verbatim>\<open>undefined\<close> inside the parentheses.
\<close>

datatype pillar_name = NianZhu | YueZhu | RiZhu | ShiZhu

type_synonym ten_god_entry = "glyph option \<times> god option"

record ten_gods =
  nianZhu :: "ten_god_entry list"
  yueZhu :: "ten_god_entry list"
  riZhu :: "ten_god_entry list"
  shiZhu :: "ten_god_entry list"

definition push_entry :: "pillar_name \<Rightarrow> ten_god_entry \<Rightarrow> ten_gods \<Rightarrow> ten_gods" where
  "push_entry n e tg =
     (case n of
        NianZhu \<Rightarrow> tg\<lparr>nianZhu := nianZhu tg @ [e]\<rparr>
      | YueZhu \<Rightarrow> tg\<lparr>yueZhu := yueZhu tg @ [e]\<rparr>
      | RiZhu \<Rightarrow> tg\<lparr>riZhu := riZhu tg @ [e]\<rparr>
      | ShiZhu \<Rightarrow> tg\<lparr>shiZhu := shiZhu tg @ [e]\<rparr>)"

definition classify_pillar ::
  "(glyph \<rightharpoonup> god) option \<Rightarrow> pillar_name option \<Rightarrow> pillar \<Rightarrow> ten_gods \<Rightarrow> js_error + ten_gods" where
  "classify_pillar dayMasterTenGods pillarName p tg =
     (case dayMasterTenGods of
        None \<Rightarrow> Inl TypeError
      | Some table \<Rightarrow>
          (case pillarName of
             None \<Rightarrow> Inl TypeError
           | Some n \<Rightarrow>
               (let stemGod = js_get table (stem p);
                    tg1 = push_entry n (stem p, stemGod) tg;
                    branchGod = js_get table (branch p);
                    tg2 = push_entry n (branch p, branchGod) tg1
                in case js_get HIDDEN_STEMS (branch p) of
                     None \<Rightarrow> Inl TypeError
                   | Some hiddenStems \<Rightarrow>
                       Inr (fold (\<lambda>s. push_entry n (Some s, table s)) hiddenStems tg2))))"

fun classify_pillars ::
  "(glyph \<rightharpoonup> god) option \<Rightarrow> pillar list \<Rightarrow> int \<Rightarrow> ten_gods \<Rightarrow> js_error + ten_gods" where
  "classify_pillars t [] index tg = Inr tg"
| "classify_pillars t (p # ps) index tg =
     (case classify_pillar t (js_index [NianZhu, YueZhu, RiZhu, ShiZhu] index) p tg of
        Inl e \<Rightarrow> Inl e
      | Inr tg' \<Rightarrow> classify_pillars t ps (index + 1) tg')"

definition calculateTenGods :: "glyph option \<Rightarrow> pillar list \<Rightarrow> js_error + ten_gods" where
  "calculateTenGods dayMaster pillars =
     classify_pillars (js_get TEN_GODS dayMaster) pillars 0
       \<lparr>nianZhu = [], yueZhu = [], riZhu = [], shiZhu = []\<rparr>"

section \<open>The class CompleteBaZiCalculator of complete-bazi-calculator.ts\<close>

text \<open>
  The methods return objects that also carry display strings (the two characters
  concatenated, the names of the month and of the hour slot); the records below keep the
  fields that are computed: the pillar, and the indices and year the methods report.
\<close>

definition tianGan :: "glyph list" where
  "tianGan = [Jia, Yi, Bing, Ding, Wu, Ji, Geng, Xin, Ren, Gui]"

definition diZhi :: "glyph list" where
  "diZhi = [Zi, Chou, Yin, Mao, Chen, Si, Wu_horse, Wei, Shen, You, Xu, Hai]"

definition wuXing :: "glyph \<rightharpoonup> element" where
  "wuXing = map_of
     [(Jia, Wood), (Yi, Wood), (Bing, Fire), (Ding, Fire), (Wu, Earth), (Ji, Earth),
      (Geng, Metal), (Xin, Metal), (Ren, Water), (Gui, Water),
      (Zi, Water), (Chou, Earth), (Yin, Wood), (Mao, Wood), (Chen, Earth), (Si, Fire),
      (Wu_horse, Fire), (Wei, Earth), (Shen, Metal), (You, Metal), (Xu, Earth), (Hai, Water)]"

definition yearGanToMonthGan :: "glyph \<rightharpoonup> int" where
  "yearGanToMonthGan = map_of
     [(Jia, 2), (Ji, 2), (Yi, 4), (Geng, 4), (Bing, 6), (Xin, 6),
      (Ding, 8), (Ren, 8), (Wu, 0), (Gui, 0)]"

definition dayGanToHourGan :: "glyph \<rightharpoonup> int" where
  "dayGanToHourGan = map_of
     [(Jia, 0), (Ji, 0), (Yi, 2), (Geng, 2), (Bing, 4), (Xin, 4),
      (Ding, 6), (Ren, 6), (Wu, 8), (Gui, 8)]"

record time_slot =
  slot_start :: int
  slot_end :: int
  slot_zhi :: glyph

definition timeToHour :: "time_slot list" where
  "timeToHour =
     [\<lparr>slot_start = 23, slot_end = 1, slot_zhi = Zi\<rparr>,
      \<lparr>slot_start = 1, slot_end = 3, slot_zhi = Chou\<rparr>,
      \<lparr>slot_start = 3, slot_end = 5, slot_zhi = Yin\<rparr>,
      \<lparr>slot_start = 5, slot_end = 7, slot_zhi = Mao\<rparr>,
      \<lparr>slot_start = 7, slot_end = 9, slot_zhi = Chen\<rparr>,
      \<lparr>slot_start = 9, slot_end = 11, slot_zhi = Si\<rparr>,
      \<lparr>slot_start = 11, slot_end = 13, slot_zhi = Wu_horse\<rparr>,
      \<lparr>slot_start = 13, slot_end = 15, slot_zhi = Wei\<rparr>,
      \<lparr>slot_start = 15, slot_end = 17, slot_zhi = Shen\<rparr>,
      \<lparr>slot_start = 17, slot_end = 19, slot_zhi = You\<rparr>,
      \<lparr>slot_start = 19, slot_end = 21, slot_zhi = Xu\<rparr>,
      \<lparr>slot_start = 21, slot_end = 23, slot_zhi = Hai\<rparr>]"

record indexed_pillar = pillar +
  stemIndex :: int
  branchIndex :: int

record year_pillar = indexed_pillar +
  ganZhiYear :: int

record day_pillar = indexed_pillar +
  daysDiff :: int

definition Complete_calculateYearPillar :: "int \<Rightarrow> int \<Rightarrow> int \<Rightarrow> year_pillar" where
  "Complete_calculateYearPillar year month day =
     (let ganZhiYear = (if month = 1 \<or> (month = 2 \<and> day < 4) then year - 1 else year);
          offset = ganZhiYear - 4;
          ganIndex = js_rem offset 10;
          zhiIndex = js_rem offset 12;
          finalGan = (if ganIndex < 0 then ganIndex + 10 else ganIndex);
          finalZhi = (if zhiIndex < 0 then zhiIndex + 12 else zhiIndex)
      in \<lparr>stem = js_index tianGan finalGan,
          branch = js_index diZhi finalZhi,
          stemIndex = finalGan,
          branchIndex = finalZhi,
          ganZhiYear = ganZhiYear\<rparr>)"

text \<open>
  The table \<^verbatim>\<open>monthMapping\<close> of \<^verbatim>\<open>calculateMonthPillar\<close>, which serves the months that are
  neither January nor February: month number, branch and branch index.
\<close>

definition monthMapping :: "int \<rightharpoonup> glyph \<times> int" where
  "monthMapping = map_of
     [(3, (Mao, 3)),
      (4, (Chen, 4)),
      (5, (Si, 5)),
      (6, (Wu_horse, 6)),
      (7, (Wei, 7)),
      (8, (Shen, 8)),
      (9, (You, 9)),
      (10, (Xu, 10)),
      (11, (Hai, 11)),
      (12, (Zi, 0))]"

text \<open>
  The branch and branch index \<^verbatim>\<open>calculateMonthPillar\<close> settles on; a month with no entry
  in \<open>monthMapping\<close> makes the read of \<^verbatim>\<open>.zhi\<close> throw.
\<close>

definition monthZhi_of :: "int \<Rightarrow> int \<Rightarrow> js_error + glyph \<times> int" where
  "monthZhi_of month day =
     (if month = 1 then Inr (Chou, 1)
      else if month = 2 then Inr (if day < 4 then Chou else Yin, if day < 4 then 1 else 2)
      else (case monthMapping month of None \<Rightarrow> Inl TypeError | Some e \<Rightarrow> Inr e))"

definition Complete_calculateMonthPillar ::
  "int \<Rightarrow> int \<Rightarrow> int \<Rightarrow> glyph option \<Rightarrow> js_error + pillar" where
  "Complete_calculateMonthPillar year month day yearStem =
     (case monthZhi_of month day of
        Inl e \<Rightarrow> Inl e
      | Inr (monthZhi, monthZhiIndex) \<Rightarrow>
          (let monthGanBase = js_get yearGanToMonthGan yearStem;
               monthGanIndex = map_option (\<lambda>b. js_rem (b + monthZhiIndex - 2) 10) monthGanBase
           in Inr \<lparr>stem = (case monthGanIndex of None \<Rightarrow> None | Some i \<Rightarrow> js_index tianGan i),
                   branch = Some monthZhi\<rparr>))"

definition Complete_calculateDayPillar :: "int \<Rightarrow> int \<Rightarrow> int \<Rightarrow> day_pillar" where
  "Complete_calculateDayPillar year month day =
     (let baseDate = new_Date 1900 0 1 0 0;
          targetDate = new_Date year (month - 1) day 0 0;
          daysDiff = (targetDate - baseDate) div msPerDay;
          correctedDays = daysDiff - 12;
          baseGan = 6;
          baseZhi = 0;
          ganIndex = js_rem (baseGan + correctedDays) 10;
          zhiIndex = js_rem (baseZhi + correctedDays) 12;
          finalGan = (if ganIndex < 0 then ganIndex + 10 else ganIndex);
          finalZhi = (if zhiIndex < 0 then zhiIndex + 12 else zhiIndex)
      in \<lparr>stem = js_index tianGan finalGan,
          branch = js_index diZhi finalZhi,
          stemIndex = finalGan,
          branchIndex = finalZhi,
          daysDiff = correctedDays\<rparr>)"

definition Complete_calculateHourPillar :: "glyph option \<Rightarrow> int \<Rightarrow> int \<Rightarrow> js_error + pillar" where
  "Complete_calculateHourPillar dayStem hour minute =
     (let hourInfo =
            (if hour \<ge> 23 \<or> hour < 1 then js_index timeToHour 0
             else List.find (\<lambda>timeSlot. hour \<ge> slot_start timeSlot \<and> hour < slot_end timeSlot)
                    timeToHour)
      in case hourInfo of
           None \<Rightarrow> Inl Error
         | Some info \<Rightarrow>
             (let hourGanBase = js_get dayGanToHourGan dayStem;
                  hourZhiIndex = js_indexOf diZhi (Some (slot_zhi info));
                  hourGanIndex = map_option (\<lambda>b. js_rem (b + hourZhiIndex) 10) hourGanBase
              in Inr \<lparr>stem = (case hourGanIndex of None \<Rightarrow> None | Some i \<Rightarrow> js_index tianGan i),
                      branch = Some (slot_zhi info)\<rparr>))"

text \<open>
  \<^verbatim>\<open>analyzeFiveElements\<close> walks the characters of the chart's text; a character that is
  not a key of \<open>wuXing\<close> (\<open>None\<close> here) is skipped.
\<close>

definition analyzeFiveElements :: "glyph option list \<Rightarrow> elements" where
  "analyzeFiveElements chars =
     fold (\<lambda>c. add_element (js_get wuXing c) 1) chars
       \<lparr>wood = 0, fire = 0, earth = 0, metal = 0, water = 0\<rparr>"

text \<open>
  The characters of the text \<^verbatim>\<open>calculate\<close> builds from a chart and passes on, once the
  blanks are removed: the stem and the branch of each pillar, in order.
\<close>

definition chart_chars :: "pillar list \<Rightarrow> glyph option list" where
  "chart_chars pillars = concat (map (\<lambda>p. [stem p, branch p]) pillars)"

section \<open>The class AstronomicalTimeCalculator of astronomical-time.ts\<close>

record Location =
  name :: string
  longitude :: real
  latitude :: real
  timezone :: real

record TrueSolarTime =
  trueYear :: int
  trueMonth :: int
  trueDay :: int
  trueHour :: int
  trueMinute :: int
  trueSecond :: int
  isLeapYear :: bool
  dayOfWeek :: int
  jd :: real
  eot :: real
  longitudeCorrection :: real
  totalCorrection :: real

text \<open>The entry of the city table \<^verbatim>\<open>CHINESE_CITIES\<close> for Beijing, and the one for Urumqi.\<close>

definition Beijing :: Location where
  "Beijing = \<lparr>name = ''Beijing'', longitude = 116.4074, latitude = 39.9042, timezone = 8\<rparr>"

definition Urumqi :: Location where
  "Urumqi = \<lparr>name = ''Urumqi'', longitude = 87.6168, latitude = 43.8256, timezone = 8\<rparr>"

definition julianDay :: "int \<Rightarrow> int \<Rightarrow> int \<Rightarrow> int \<Rightarrow> int \<Rightarrow> int \<Rightarrow> real" where
  "julianDay year month day hour minute second =
     (let year' = (if month \<le> 2 then year - 1 else year);
          month' = (if month \<le> 2 then month + 12 else month);
          a = year' div 100;
          b = 2 - a + a div 4
      in of_int \<lfloor>365.25 * of_int (year' + 4716) :: real\<rfloor>
         + of_int \<lfloor>30.6001 * of_int (month' + 1) :: real\<rfloor>
         + of_int day + of_int b - 1524.5
         + (of_int hour + of_int minute / 60 + of_int second / 3600) / 24)"

definition equationOfTime :: "real \<Rightarrow> real" where
  "equationOfTime j =
     (let t = (j - 2451545.0) / 36525.0;
          l0 = 280.46646 + 36000.76983 * t + 0.0003032 * t * t;
          m = 357.52911 + 35999.05029 * t - 0.0001537 * t * t;
          e = 0.016708634 - 0.000042037 * t - 0.0000001267 * t * t;
          c = (1.914602 - 0.004817 * t - 0.000014 * t * t) * sin (m * pi / 180)
              + (0.019993 - 0.000101 * t) * sin (2 * m * pi / 180)
              + 0.000289 * sin (3 * m * pi / 180);
          sunLon = l0 + c;
          omega = 125.04 - 1934.136 * t;
          delta = - 2.4657 * sin (2 * (sunLon - omega) * pi / 180)
                  + 1.5303 * sin (2 * sunLon * pi / 180)
                  + - 0.2088 * sin (sunLon * pi / 180)
      in delta)"

text \<open>
  \<^verbatim>\<open>calculateTrueSolarTime\<close>. The source declares \<^verbatim>\<open>trueHour\<close> with \<^verbatim>\<open>const\<close> and assigns to
  it in both arms of the block that handles a crossing of the day boundary: when the hour
  count is 24 or more, or negative, the assignment throws a TypeError (after the day of
  the month has been moved by one) and the call returns nothing. When it returns, the
  year, the month and the day are the ones passed in.
\<close>

definition calculateTrueSolarTime ::
  "int \<Rightarrow> int \<Rightarrow> int \<Rightarrow> int \<Rightarrow> int \<Rightarrow> Location \<Rightarrow> js_error + TrueSolarTime" where
  "calculateTrueSolarTime year month day hour minute location =
     (let j = julianDay year month day hour minute 0;
          equationOfTime' = equationOfTime j;
          standardLongitude = (timezone location - 8) * 15;
          longitudeCorrection' = (longitude location - standardLongitude) * 4;
          totalCorrection' = equationOfTime' + longitudeCorrection';
          totalMinutes = of_int hour * 60 + of_int minute + totalCorrection';
          trueHour' = \<lfloor>totalMinutes / 60\<rfloor>;
          trueMinute' = \<lfloor>js_fmod totalMinutes 60\<rfloor>;
          trueSecond' = \<lfloor>js_fmod totalMinutes 1 * 60\<rfloor>
      in if trueHour' \<ge> 24 then Inl TypeError
         else if trueHour' < 0 then Inl TypeError
         else
           (let date = new_Date year (month - 1) day 0 0
            in Inr \<lparr>trueYear = year,
                    trueMonth = month,
                    trueDay = day,
                    trueHour = trueHour',
                    trueMinute = trueMinute',
                    trueSecond = trueSecond',
                    isLeapYear =
                      ((js_rem year 4 = 0 \<and> js_rem year 100 \<noteq> 0) \<or> js_rem year 400 = 0),
                    dayOfWeek = getDay date,
                    jd = j,
                    eot = equationOfTime',
                    longitudeCorrection = longitudeCorrection',
                    totalCorrection = totalCorrection'\<rparr>))"

text \<open>
  The hour count \<^verbatim>\<open>Math.floor(totalMinutes / 60)\<close> of \<^verbatim>\<open>calculateTrueSolarTime\<close>, as a
  function of the arguments.
\<close>

definition rawTrueHour :: "int \<Rightarrow> int \<Rightarrow> int \<Rightarrow> int \<Rightarrow> int \<Rightarrow> Location \<Rightarrow> int" where
  "rawTrueHour y m d h mi loc =
     \<lfloor>(of_int h * 60 + of_int mi
        + (equationOfTime (julianDay y m d h mi 0) + (longitude loc - (timezone loc - 8) * 15) * 4))
       / 60\<rfloor>"

section \<open>The longitude offset of timezone-calculator.ts\<close>

text \<open>In milliseconds; 120 degrees east is the meridian the source names as China's standard.\<close>

definition calculateLongitudeOffset :: "real \<Rightarrow> real" where
  "calculateLongitudeOffset lon = (lon - 120) * 4 * 60 * 1000"

section \<open>Validation of the birth information (bazi-calculator.ts)\<close>

text \<open>
  A small regular-expression matcher: \<open>rx_rest r s\<close> lists the remainders of \<open>s\<close> after
  every way \<open>r\<close> can match a prefix of it, and a pattern anchored at both ends accepts
  \<open>s\<close> when the empty remainder is among them.
\<close>

datatype rx = Chr char | Rng char char | Seq rx rx | Alt rx rx | Opt rx

definition char_between :: "char \<Rightarrow> char \<Rightarrow> char \<Rightarrow> bool" where
  "char_between a b x = ((of_char a :: nat) \<le> of_char x \<and> (of_char x :: nat) \<le> of_char b)"

fun rx_rest :: "rx \<Rightarrow> string \<Rightarrow> string list" where
  "rx_rest (Chr c) s = (case s of [] \<Rightarrow> [] | x # xs \<Rightarrow> if x = c then [xs] else [])"
| "rx_rest (Rng a b) s =
     (case s of [] \<Rightarrow> [] | x # xs \<Rightarrow> if char_between a b x then [xs] else [])"
| "rx_rest (Seq r1 r2) s = concat (map (rx_rest r2) (rx_rest r1 s))"
| "rx_rest (Alt r1 r2) s = rx_rest r1 s @ rx_rest r2 s"
| "rx_rest (Opt r) s = rx_rest r s @ [s]"

definition rx_test :: "rx \<Rightarrow> string \<Rightarrow> bool" where
  "rx_test r s = ([] \<in> set (rx_rest r s))"

text \<open>The pattern \<^verbatim>\<open>/^([01]?[0-9]|2[0-3]):[0-5][0-9]$/\<close>.\<close>

definition TIME_PATTERN :: rx where
  "TIME_PATTERN =
     Seq (Alt (Seq (Opt (Rng CHR ''0'' CHR ''1'')) (Rng CHR ''0'' CHR ''9''))
              (Seq (Chr CHR ''2'') (Rng CHR ''0'' CHR ''3'')))
         (Seq (Chr CHR '':'')
              (Seq (Rng CHR ''0'' CHR ''5'') (Rng CHR ''0'' CHR ''9'')))"

text \<open>
  A \<^verbatim>\<open>Date\<close> object is either a time value or an invalid date, whose year reads as NaN
  (\<open>None\<close>); every comparison with NaN is false.
\<close>

datatype js_date = ValidDate int | InvalidDate

definition date_getFullYear :: "js_date \<Rightarrow> int option" where
  "date_getFullYear d = (case d of ValidDate t \<Rightarrow> Some (getFullYear t) | InvalidDate \<Rightarrow> None)"

text \<open>
  The fields may be missing at run time (\<open>None\<close>); a missing or empty string is falsy, a
  \<^verbatim>\<open>Date\<close> object is always truthy.
\<close>

record BirthInfo =
  birthDate :: "js_date option"
  birthTime :: "string option"
  gender :: "string option"
  calendarType :: "string option"

definition falsy_string :: "string option \<Rightarrow> bool" where
  "falsy_string s = (case s of None \<Rightarrow> True | Some x \<Rightarrow> x = [])"

text \<open>
  The five messages, in the order the source pushes them: no birth date, malformed
  time, no gender, no calendar type, year outside 1900 to 2100.
\<close>

datatype message = MsgBirthDate | MsgBirthTime | MsgGender | MsgCalendarType | MsgYearRange

record validation =
  valid :: bool
  errors :: "message list"

definition validateBirthInfo :: "BirthInfo \<Rightarrow> validation" where
  "validateBirthInfo birthInfo =
     (let errors1 = (if birthDate birthInfo = None then [MsgBirthDate] else []);
          errors2 = errors1 @
            (if falsy_string (birthTime birthInfo)
                \<or> \<not> rx_test TIME_PATTERN (case birthTime birthInfo of None \<Rightarrow> [] | Some s \<Rightarrow> s)
             then [MsgBirthTime] else []);
          errors3 = errors2 @ (if falsy_string (gender birthInfo) then [MsgGender] else []);
          errors4 = errors3 @
            (if falsy_string (calendarType birthInfo) then [MsgCalendarType] else []);
          errors5 = errors4 @
            (case birthDate birthInfo of
               None \<Rightarrow> []
             | Some d \<Rightarrow>
                 (case date_getFullYear d of
                    None \<Rightarrow> []
                  | Some year \<Rightarrow> if year < 1900 \<or> year > 2100 then [MsgYearRange] else []))
      in \<lparr>valid = (length errors5 = 0), errors = errors5\<rparr>)"

text \<open>
  The texts the time pattern accepts, spelled out: one or two hour digits (a single
  digit, or 00 to 19, or 20 to 23), a colon, and two minute digits from 00 to 59.
  \<open>HH_MM\<close> is the stricter format of exactly two hour digits and two minute digits.
\<close>

fun clock_text :: "string \<Rightarrow> bool" where
  "clock_text [h, c, m1, m2] =
     (char_between CHR ''0'' CHR ''9'' h \<and> c = CHR '':''
      \<and> char_between CHR ''0'' CHR ''5'' m1 \<and> char_between CHR ''0'' CHR ''9'' m2)"
| "clock_text [h1, h2, c, m1, m2] =
     (((char_between CHR ''0'' CHR ''1'' h1 \<and> char_between CHR ''0'' CHR ''9'' h2)
       \<or> (h1 = CHR ''2'' \<and> char_between CHR ''0'' CHR ''3'' h2))
      \<and> c = CHR '':''
      \<and> char_between CHR ''0'' CHR ''5'' m1 \<and> char_between CHR ''0'' CHR ''9'' m2)"
| "clock_text s = False"

definition HH_MM :: "string \<Rightarrow> bool" where
  "HH_MM s = (length s = 5 \<and> clock_text s)"

text \<open>
  The conditions of the four checks of \<^verbatim>\<open>validateBirthInfo\<close> on the date and on the
  time: the birth date is present with a year from 1900 to 2100, and the birth time is
  present and a clock text; and the number of the four checks that fail.
\<close>

definition date_in_range :: "js_date option \<Rightarrow> bool" where
  "date_in_range d =
     (case d of
        None \<Rightarrow> False
      | Some x \<Rightarrow>
          (case x of
             ValidDate t \<Rightarrow> 1900 \<le> getFullYear t \<and> getFullYear t \<le> 2100
           | InvalidDate \<Rightarrow> False))"

definition time_accepted :: "string option \<Rightarrow> bool" where
  "time_accepted t = (case t of None \<Rightarrow> False | Some s \<Rightarrow> clock_text s)"

definition failed_checks :: "BirthInfo \<Rightarrow> nat" where
  "failed_checks b =
     (if date_in_range (birthDate b) then 0 else 1)
     + (if time_accepted (birthTime b) then 0 else 1)
     + (if falsy_string (gender b) then 1 else 0)
     + (if falsy_string (calendarType b) then 1 else 0)"

section \<open>Sample inputs\<close>

text \<open>
  The chart \<^verbatim>\<open>calculateBazi\<close> computes for noon of 1 January 2000: Geng-Chen, Wu-Yin,
  Jia-Yin, Ren-Wu_horse.
\<close>

definition chart_2000 :: "pillar list" where
  "chart_2000 =
     [\<lparr>stem = Some Geng, branch = Some Chen\<rparr>, \<lparr>stem = Some Wu, branch = Some Yin\<rparr>,
      \<lparr>stem = Some Jia, branch = Some Yin\<rparr>, \<lparr>stem = Some Ren, branch = Some Wu_horse\<rparr>]"

text \<open>A complete record, born on 1 January 2000, with the given birth time.\<close>

definition sample_birth :: "string \<Rightarrow> BirthInfo" where
  "sample_birth t =
     \<lparr>birthDate = Some (ValidDate (new_Date 2000 0 1 0 0)), birthTime = Some t,
      gender = Some ''male'', calendarType = Some ''solar''\<rparr>"

section \<open>Properties of the remainder\<close>

lemma js_rem_nonneg: "0 \<le> a \<Longrightarrow> 0 < b \<Longrightarrow> js_rem a b = a mod b"
  by (cases "a = 0") (simp_all add: js_rem_def)

lemma js_rem_neg: "a < 0 \<Longrightarrow> 0 < b \<Longrightarrow> js_rem a b = - ((- a) mod b)"
  by (simp add: js_rem_def)

text \<open>
  Adding the modulus to a negative remainder, as the class CompleteBaZiCalculator does,
  gives the mathematical residue.
\<close>

lemma js_rem_normalised:
  assumes "0 < b"
  shows "(if js_rem a b < 0 then js_rem a b + b else js_rem a b) = a mod b"
proof (cases "0 \<le> a")
  case True
  have "\<not> a mod b < 0" using assms by (simp add: not_less)
  with True assms show ?thesis by (simp add: js_rem_nonneg)
next
  case False
  then have neg: "a < 0" by simp
  have r: "js_rem a b = - ((- a) mod b)" using neg assms by (rule js_rem_neg)
  have m: "(- a) mod b = (if a mod b = 0 then 0 else b - a mod b)"
    by (rule zmod_zminus1_eq_if)
  have bounds: "0 \<le> a mod b" "a mod b < b" using assms by simp_all
  show ?thesis
  proof (cases "a mod b = 0")
    case True
    then show ?thesis using r m by simp
  next
    case False
    then have "js_rem a b = a mod b - b" using r m by simp
    then show ?thesis using bounds False by simp
  qed
qed

section \<open>The element tally\<close>

lemma elements_sum_add_Some: "elements_sum (add_element (Some e) w els) = elements_sum els + w"
  by (cases e) (simp_all add: add_element_def elements_sum_def)

lemma stem_has_element: "g \<in> set HEAVENLY_STEMS \<Longrightarrow> \<exists>e. STEM_ELEMENTS g = Some e"
  by (auto simp: HEAVENLY_STEMS_def STEM_ELEMENTS_def)

lemma branch_has_element: "b \<in> set EARTHLY_BRANCHES \<Longrightarrow> \<exists>e. BRANCH_ELEMENTS b = Some e"
  by (auto simp: EARTHLY_BRANCHES_def BRANCH_ELEMENTS_def)

lemma branch_has_hidden_stems:
  "b \<in> set EARTHLY_BRANCHES \<Longrightarrow> \<exists>hs. HIDDEN_STEMS b = Some hs \<and> set hs \<subseteq> set HEAVENLY_STEMS"
  by (auto simp: EARTHLY_BRANCHES_def HIDDEN_STEMS_def HEAVENLY_STEMS_def)

lemma elements_sum_hidden:
  "set hs \<subseteq> set HEAVENLY_STEMS \<Longrightarrow>
   elements_sum (fold (\<lambda>s. add_element (STEM_ELEMENTS s) (1 / 2)) hs els)
     = elements_sum els + real (length hs) / 2"
proof (induction hs arbitrary: els)
  case Nil
  show ?case by simp
next
  case (Cons s hs)
  from Cons.prems obtain e where e: "STEM_ELEMENTS s = Some e"
    using stem_has_element by auto
  from Cons.prems have rest: "set hs \<subseteq> set HEAVENLY_STEMS" by simp
  show ?case
    by (simp add: e Cons.IH [OF rest] elements_sum_add_Some)
qed

text \<open>One pillar adds 1 for its stem, 1 for its branch and a half for each hidden stem.\<close>

lemma tally_pillar_sum:
  assumes "wellformed_pillar p"
  shows "\<exists>els'. tally_pillar p els = Inr els'
           \<and> elements_sum els' = elements_sum els + 2 + real (hidden_of p) / 2"
proof -
  from assms obtain g b where g: "stem p = Some g" "g \<in> set HEAVENLY_STEMS"
    and b: "branch p = Some b" "b \<in> set EARTHLY_BRANCHES"
    by (auto simp: wellformed_pillar_def)
  obtain e1 where e1: "STEM_ELEMENTS g = Some e1" using stem_has_element [OF g(2)] by blast
  obtain e2 where e2: "BRANCH_ELEMENTS b = Some e2" using branch_has_element [OF b(2)] by blast
  obtain hs where hs: "HIDDEN_STEMS b = Some hs" "set hs \<subseteq> set HEAVENLY_STEMS"
    using branch_has_hidden_stems [OF b(2)] by blast
  show ?thesis
    by (simp add: tally_pillar_def Let_def js_get_def g b e1 e2 hs hidden_of_def
        elements_sum_hidden elements_sum_add_Some)
qed

lemma tally_pillars_sum:
  "list_all wellformed_pillar ps \<Longrightarrow>
   \<exists>els'. tally_pillars ps els = Inr els'
     \<and> elements_sum els' = elements_sum els + 2 * real (length ps) + real (hiddenStemCount ps) / 2"
proof (induction ps arbitrary: els)
  case Nil
  show ?case by (simp add: hiddenStemCount_def)
next
  case (Cons p ps)
  from Cons.prems have p: "wellformed_pillar p" and ps: "list_all wellformed_pillar ps" by simp_all
  from tally_pillar_sum [OF p, of els] obtain els1 where
    s1: "tally_pillar p els = Inr els1"
    and v1: "elements_sum els1 = elements_sum els + 2 + real (hidden_of p) / 2" by blast
  from Cons.IH [OF ps, of els1] obtain els2 where
    s2: "tally_pillars ps els1 = Inr els2"
    and v2: "elements_sum els2 = elements_sum els1 + 2 * real (length ps) + real (hiddenStemCount ps) / 2"
    by blast
  have h: "hiddenStemCount (p # ps) = hidden_of p + hiddenStemCount ps"
    by (simp add: hiddenStemCount_def)
  show ?case
    by (simp add: s1 s2 v1 v2 h add_divide_distrib)
qed

lemma tally_sum_any_length:
  assumes "list_all wellformed_pillar ps"
  shows "tally_sum ps = Some (2 * real (length ps) + real (hiddenStemCount ps) / 2)"
proof -
  from tally_pillars_sum [OF assms, of "\<lparr>wood = 0, fire = 0, earth = 0, metal = 0, water = 0\<rparr>"]
  obtain els where "calculateFiveElements ps = Inr els"
    and "elements_sum els = 2 * real (length ps) + real (hiddenStemCount ps) / 2"
    by (auto simp: calculateFiveElements_def elements_sum_def)
  then show ?thesis by (simp add: tally_sum_def)
qed

lemma chart_2000_computed: "calculateBazi_pillars (new_Date 2000 0 1 12 0) = chart_2000"
  by code_simp

lemma chart_2000_wellformed: "list_all wellformed_pillar chart_2000"
  by (simp add: chart_2000_def wellformed_pillar_def HEAVENLY_STEMS_def EARTHLY_BRANCHES_def)

lemma chart_2000_hidden: "hiddenStemCount chart_2000 = 11"
  by (simp add: chart_2000_def hiddenStemCount_def hidden_of_def js_get_def HIDDEN_STEMS_def)

lemma chart_2000_tally:
  "calculateFiveElements chart_2000 =
     Inr \<lparr>wood = 9 / 2, fire = 5 / 2, earth = 4, metal = 1, water = 3 / 2\<rparr>"
  by (simp add: chart_2000_def calculateFiveElements_def tally_pillar_def Let_def js_get_def
      STEM_ELEMENTS_def BRANCH_ELEMENTS_def HIDDEN_STEMS_def add_element_def)

text \<open>
  Bucket by bucket: a weight goes to the bucket of the element it is added for, and to
  no other.
\<close>

lemma bucket_add_element:
  "bucket e (add_element x w els) = bucket e els + (if x = Some e then w else 0)"
proof (cases x)
  case None
  then show ?thesis by (simp add: add_element_def)
next
  case (Some e')
  then show ?thesis by (cases e; cases e') (simp_all add: bucket_def add_element_def)
qed

lemma bucket_hidden:
  "bucket e (fold (\<lambda>s. add_element (STEM_ELEMENTS s) (1 / 2)) hs els)
     = bucket e els + real (length (filter (\<lambda>s. STEM_ELEMENTS s = Some e) hs)) / 2"
proof (induction hs arbitrary: els)
  case Nil
  show ?case by simp
next
  case (Cons s hs)
  show ?case by (simp add: Cons.IH bucket_add_element add_divide_distrib)
qed

lemma tally_pillar_bucket:
  assumes "tally_pillar p els = Inr els'"
  shows "bucket e els' =
           bucket e els
           + (if js_get STEM_ELEMENTS (stem p) = Some e then 1 else 0)
           + (if js_get BRANCH_ELEMENTS (branch p) = Some e then 1 else 0)
           + real (hidden_with e p) / 2"
proof (cases "js_get HIDDEN_STEMS (branch p)")
  case None
  with assms show ?thesis by (simp add: tally_pillar_def Let_def)
next
  case (Some hs)
  with assms have "els' =
      fold (\<lambda>s. add_element (STEM_ELEMENTS s) (1 / 2)) hs
        (add_element (js_get BRANCH_ELEMENTS (branch p)) 1
          (add_element (js_get STEM_ELEMENTS (stem p)) 1 els))"
    by (simp add: tally_pillar_def Let_def)
  then show ?thesis
    by (simp add: bucket_hidden bucket_add_element hidden_with_def Some)
qed

lemma tally_pillars_bucket:
  "tally_pillars ps els = Inr els' \<Longrightarrow>
   bucket e els' =
     bucket e els + real (stem_count e ps) + real (branch_count e ps)
     + real (hidden_count e ps) / 2"
proof (induction ps arbitrary: els)
  case Nil
  then show ?case by (simp add: stem_count_def branch_count_def hidden_count_def)
next
  case (Cons p ps)
  from Cons.prems obtain els1 where s1: "tally_pillar p els = Inr els1"
    and s2: "tally_pillars ps els1 = Inr els'"
    by (auto split: sum.splits)
  have c: "stem_count e (p # ps)
             = (if js_get STEM_ELEMENTS (stem p) = Some e then 1 else 0) + stem_count e ps"
    "branch_count e (p # ps)
       = (if js_get BRANCH_ELEMENTS (branch p) = Some e then 1 else 0) + branch_count e ps"
    "hidden_count e (p # ps) = hidden_with e p + hidden_count e ps"
    by (simp_all add: stem_count_def branch_count_def hidden_count_def)
  show ?case
    using Cons.IH [OF s2] tally_pillar_bucket [OF s1, of e]
    by (simp add: c add_divide_distrib)
qed

lemma tally_bucket_any_length:
  assumes "list_all wellformed_pillar ps"
  shows "returned (bucket e) (calculateFiveElements ps) =
           Some (real (stem_count e ps) + real (branch_count e ps) + real (hidden_count e ps) / 2)"
proof -
  from tally_pillars_sum [OF assms, of "\<lparr>wood = 0, fire = 0, earth = 0, metal = 0, water = 0\<rparr>"]
  obtain els where r: "calculateFiveElements ps = Inr els"
    by (auto simp: calculateFiveElements_def)
  then have "tally_pillars ps \<lparr>wood = 0, fire = 0, earth = 0, metal = 0, water = 0\<rparr> = Inr els"
    by (simp add: calculateFiveElements_def)
  from tally_pillars_bucket [OF this, of e]
  have "bucket e els
          = real (stem_count e ps) + real (branch_count e ps) + real (hidden_count e ps) / 2"
    by (cases e) (simp_all add: bucket_def)
  then show ?thesis by (simp add: returned_def r)
qed

text \<open>
  \<^verbatim>\<open>analyzeFiveElements\<close> of the class CompleteBaZiCalculator adds one for every character
  of the two vocabularies, to the bucket of its element, and knows no hidden stems.
\<close>

lemma wuXing_total: "\<exists>e. wuXing g = Some e"
  by (cases g) (simp_all add: wuXing_def)

lemma wuXing_stem: "g \<in> set HEAVENLY_STEMS \<Longrightarrow> wuXing g = STEM_ELEMENTS g"
  by (auto simp: HEAVENLY_STEMS_def wuXing_def STEM_ELEMENTS_def)

lemma wuXing_branch: "b \<in> set EARTHLY_BRANCHES \<Longrightarrow> wuXing b = BRANCH_ELEMENTS b"
  by (auto simp: EARTHLY_BRANCHES_def wuXing_def BRANCH_ELEMENTS_def)

lemma analyze_fold_bucket:
  "bucket e (fold (\<lambda>c. add_element (js_get wuXing c) 1) chars els)
     = bucket e els + real (length (filter (\<lambda>c. js_get wuXing c = Some e) chars))"
proof (induction chars arbitrary: els)
  case Nil
  show ?case by simp
next
  case (Cons c cs)
  show ?case by (simp add: Cons.IH bucket_add_element)
qed

lemma chart_chars_count:
  "list_all wellformed_pillar ps \<Longrightarrow>
   length (filter (\<lambda>c. js_get wuXing c = Some e) (chart_chars ps))
     = stem_count e ps + branch_count e ps"
proof (induction ps)
  case Nil
  show ?case by (simp add: chart_chars_def stem_count_def branch_count_def)
next
  case (Cons p ps)
  from Cons.prems have p: "wellformed_pillar p" and ps: "list_all wellformed_pillar ps"
    by simp_all
  from p obtain g b where g: "stem p = Some g" "g \<in> set HEAVENLY_STEMS"
    and b: "branch p = Some b" "b \<in> set EARTHLY_BRANCHES"
    by (auto simp: wellformed_pillar_def)
  have w: "js_get wuXing (stem p) = js_get STEM_ELEMENTS (stem p)"
    "js_get wuXing (branch p) = js_get BRANCH_ELEMENTS (branch p)"
    by (simp_all add: js_get_def g b wuXing_stem wuXing_branch)
  have split: "chart_chars (p # ps) = stem p # branch p # chart_chars ps"
    by (simp add: chart_chars_def)
  have c: "stem_count e (p # ps)
             = (if js_get STEM_ELEMENTS (stem p) = Some e then 1 else 0) + stem_count e ps"
    "branch_count e (p # ps)
       = (if js_get BRANCH_ELEMENTS (branch p) = Some e then 1 else 0) + branch_count e ps"
    by (simp_all add: stem_count_def branch_count_def)
  show ?case
    unfolding split c using Cons.IH [OF ps] by (simp add: w)
qed

lemma analyze_fold_sum:
  "list_all (\<lambda>c. c \<noteq> None) chars \<Longrightarrow>
   elements_sum (fold (\<lambda>c. add_element (js_get wuXing c) 1) chars els)
     = elements_sum els + real (length chars)"
proof (induction chars arbitrary: els)
  case Nil
  show ?case by simp
next
  case (Cons c cs)
  from Cons.prems obtain g where g: "c = Some g" by auto
  obtain e where e: "wuXing g = Some e" using wuXing_total by blast
  from Cons.prems have rest: "list_all (\<lambda>c. c \<noteq> None) cs" by simp
  have ge: "js_get wuXing (Some g) = Some e" by (simp add: js_get_def e)
  show ?case by (simp add: g ge Cons.IH [OF rest] elements_sum_add_Some)
qed

lemma analyzeFiveElements_sum:
  "list_all (\<lambda>c. c \<noteq> None) chars \<Longrightarrow>
   elements_sum (analyzeFiveElements chars) = real (length chars)"
  by (simp add: analyzeFiveElements_def analyze_fold_sum) (simp add: elements_sum_def)

lemma chart_chars_defined:
  "list_all wellformed_pillar ps \<Longrightarrow>
   list_all (\<lambda>c. c \<noteq> None) (chart_chars ps) \<and> length (chart_chars ps) = 2 * length ps"
  by (induction ps) (auto simp: chart_chars_def wellformed_pillar_def)

text \<open>
  Claim C2, as amended. For every chart of four pillars whose stems and branches belong
  to the two vocabularies, \<^verbatim>\<open>calculateFiveElements\<close> of bazi-calculator.ts returns, and the
  bucket of each element holds 1.0 for every pillar whose stem has that element, 1.0 for
  every pillar whose branch has it, and 0.5 for every hidden stem of a branch that has it;
  the five buckets therefore add up to 8.0 plus one half for each hidden stem of the four
  branches. \<^verbatim>\<open>analyzeFiveElements\<close> of the class CompleteBaZiCalculator puts 1.0 for every
  stem and 1.0 for every branch in the bucket of its element and nothing for hidden
  stems; its five buckets add up to 8.0.
\<close>

theorem C2_tally_sum:
  assumes "length pillars = 4" and "list_all wellformed_pillar pillars"
  shows "returned (bucket e) (calculateFiveElements pillars) =
           Some (1.0 * real (stem_count e pillars) + 1.0 * real (branch_count e pillars)
                 + 0.5 * real (hidden_count e pillars))
         \<and> tally_sum pillars = Some (8 + (1 / 2) * real (hiddenStemCount pillars))
         \<and> bucket e (analyzeFiveElements (chart_chars pillars)) =
             1.0 * real (stem_count e pillars) + 1.0 * real (branch_count e pillars)
         \<and> elements_sum (analyzeFiveElements (chart_chars pillars)) = 8"
proof -
  have a: "bucket e (analyzeFiveElements (chart_chars pillars)) =
             real (stem_count e pillars) + real (branch_count e pillars)"
    unfolding analyzeFiveElements_def analyze_fold_bucket chart_chars_count [OF assms(2)]
    by (cases e) (simp_all add: bucket_def)
  have s: "elements_sum (analyzeFiveElements (chart_chars pillars)) = 8"
    using chart_chars_defined [OF assms(2)] assms(1) by (simp add: analyzeFiveElements_sum)
  show ?thesis
    using tally_bucket_any_length [OF assms(2), of e] tally_sum_any_length [OF assms(2)]
      assms(1) a s
    by simp
qed

theorem C2_tally_sum_witness:
  "length chart_2000 = 4 \<and> list_all wellformed_pillar chart_2000
   \<and> stem_count Earth chart_2000 = 1 \<and> branch_count Earth chart_2000 = 1
   \<and> hidden_count Earth chart_2000 = 4
   \<and> returned (bucket Earth) (calculateFiveElements chart_2000) = Some 4
   \<and> tally_sum chart_2000 = Some (8 + (1 / 2) * real (hiddenStemCount chart_2000))
   \<and> bucket Earth (analyzeFiveElements (chart_chars chart_2000)) = 2
   \<and> elements_sum (analyzeFiveElements (chart_chars chart_2000)) = 8"
proof -
  have l: "length chart_2000 = 4" by (simp add: chart_2000_def)
  have c: "stem_count Earth chart_2000 = 1" "branch_count Earth chart_2000 = 1"
    "hidden_count Earth chart_2000 = 4"
    by (simp_all add: chart_2000_def stem_count_def branch_count_def hidden_count_def
        hidden_with_def js_get_def STEM_ELEMENTS_def BRANCH_ELEMENTS_def HIDDEN_STEMS_def)
  show ?thesis
    using l chart_2000_wellformed c C2_tally_sum [OF l chart_2000_wellformed, of Earth]
    by simp
qed

text \<open>
  Claim C2 as it is written fails: for the chart of noon, 1 January 2000, with its 11
  hidden stems, the buckets add up to 13.5; 4.0 plus half the number of hidden stems
  is 9.5. The tally of the class CompleteBaZiCalculator gives 8 for the same chart.
\<close>

theorem C2_tally_sum_counterexample:
  "tally_sum (calculateBazi_pillars (new_Date 2000 0 1 12 0)) = Some (27 / 2)
   \<and> hiddenStemCount (calculateBazi_pillars (new_Date 2000 0 1 12 0)) = 11
   \<and> tally_sum (calculateBazi_pillars (new_Date 2000 0 1 12 0))
       \<noteq> Some (4 + (1 / 2) * real (hiddenStemCount (calculateBazi_pillars (new_Date 2000 0 1 12 0))))
   \<and> elements_sum (analyzeFiveElements (chart_chars (calculateBazi_pillars (new_Date 2000 0 1 12 0))))
       = 8"
proof -
  have "elements_sum (analyzeFiveElements (chart_chars chart_2000)) = 8"
    using chart_chars_defined [OF chart_2000_wellformed]
    by (simp add: analyzeFiveElements_sum) (simp add: chart_2000_def)
  then show ?thesis
    by (simp add: chart_2000_computed chart_2000_hidden tally_sum_def chart_2000_tally
        elements_sum_def)
qed

section \<open>The year pillar\<close>

lemma Complete_year_indices:
  "stemIndex (Complete_calculateYearPillar y m d)
     = ((if m = 1 \<or> (m = 2 \<and> d < 4) then y - 1 else y) - 4) mod 10"
  "branchIndex (Complete_calculateYearPillar y m d)
     = ((if m = 1 \<or> (m = 2 \<and> d < 4) then y - 1 else y) - 4) mod 12"
  "ganZhiYear (Complete_calculateYearPillar y m d)
     = (if m = 1 \<or> (m = 2 \<and> d < 4) then y - 1 else y)"
  unfolding Complete_calculateYearPillar_def Let_def
  by (simp_all only: indexed_pillar.simps year_pillar.simps pillar.simps js_rem_normalised)

lemma Complete_year_symbols:
  "stem (Complete_calculateYearPillar y m d)
     = Some (tianGan ! nat (((if m = 1 \<or> (m = 2 \<and> d < 4) then y - 1 else y) - 4) mod 10))"
  "branch (Complete_calculateYearPillar y m d)
     = Some (diZhi ! nat (((if m = 1 \<or> (m = 2 \<and> d < 4) then y - 1 else y) - 4) mod 12))"
  unfolding Complete_calculateYearPillar_def Let_def
  by (simp_all add: js_rem_normalised js_index_def tianGan_def diZhi_def)

text \<open>
  The method of the class CompleteBaZiCalculator normalises both indices, for every
  year and date, and so always returns a stem and a branch.
\<close>

lemma Complete_year_in_range:
  "0 \<le> stemIndex (Complete_calculateYearPillar y m d)
   \<and> stemIndex (Complete_calculateYearPillar y m d) < 10
   \<and> 0 \<le> branchIndex (Complete_calculateYearPillar y m d)
   \<and> branchIndex (Complete_calculateYearPillar y m d) < 12
   \<and> stem (Complete_calculateYearPillar y m d) \<in> Some ` set tianGan
   \<and> branch (Complete_calculateYearPillar y m d) \<in> Some ` set diZhi"
proof -
  have "nat (a mod 10) < length tianGan" for a :: int by (simp add: tianGan_def)
  then have s: "tianGan ! nat (a mod 10) \<in> set tianGan" for a :: int by (rule nth_mem)
  have "nat (a mod 12) < length diZhi" for a :: int by (simp add: diZhi_def)
  then have b: "diZhi ! nat (a mod 12) \<in> set diZhi" for a :: int by (rule nth_mem)
  show ?thesis
    by (simp only: Complete_year_indices Complete_year_symbols) (use s b in simp)
qed

text \<open>
  In bazi-calculator.ts every year before 1984 that is not a whole number of cycles
  away from it has an undefined stem or an undefined branch.
\<close>

lemma basic_year_undefined:
  assumes "y < 1984" and "(1984 - y) mod 60 \<noteq> 0"
  shows "stem (calculateYearPillar y) = None \<or> branch (calculateYearPillar y) = None"
proof -
  define r where "r = (1984 - y) mod 60"
  have "0 \<le> r" and r60: "r < 60" by (simp_all add: r_def)
  with assms(2) have r: "0 < r" "r < 60" by (simp_all add: r_def)
  have off: "js_rem (y - 1984) 60 = - r"
    using assms(1) by (simp add: js_rem_neg r_def)
  have si: "js_rem (- r) 10 = - (r mod 10)" and bi: "js_rem (- r) 12 = - (r mod 12)"
    using r by (simp_all add: js_rem_neg)
  have "r mod 10 \<noteq> 0 \<or> r mod 12 \<noteq> 0"
    using r by presburger
  then have "- (r mod 10) < 0 \<or> - (r mod 12) < 0"
    by (metis neg_less_0_iff_less less_le pos_mod_sign zero_less_numeral)
  then show ?thesis
    by (auto simp: calculateYearPillar_def Let_def off si bi js_index_def)
qed

text \<open>
  Claim C6: for every valid year, also one before the reference year, the year pillar
  has a stem index in [0,10) and a branch index in [0,12), so both lookups return a
  symbol. \<^verbatim>\<open>calculateYearPillar\<close> of bazi-calculator.ts does not normalise: for 1983, a
  year its own validation accepts, the offset from 1984 is -1, both indices are -1, and
  both reads of the vocabularies are undefined; the chart of 15 June 1983 then makes the
  element tally throw.
\<close>

theorem C6_basic_year_before_1984:
  "calculateYearPillar 1983 = \<lparr>stem = None, branch = None\<rparr>
   \<and> js_rem (js_rem (1983 - 1984) 60) 10 = - 1
   \<and> hd (calculateBazi_pillars (new_Date 1983 5 15 12 0)) = \<lparr>stem = None, branch = None\<rparr>
   \<and> calculateFiveElements (calculateBazi_pillars (new_Date 1983 5 15 12 0)) = Inl TypeError"
  by code_simp

section \<open>The hour pillar\<close>

lemma Complete_hour_Zi:
  "h \<ge> 23 \<or> h < 1 \<Longrightarrow>
   Complete_calculateHourPillar ds h mi =
     Inr \<lparr>stem = (case js_get dayGanToHourGan ds of
                    None \<Rightarrow> None
                  | Some b \<Rightarrow> js_index tianGan (js_rem b 10)),
         branch = Some Zi\<rparr>"
  by (simp add: Complete_calculateHourPillar_def Let_def js_index_def timeToHour_def
      js_indexOf_def diZhi_def split: option.splits)

text \<open>
  In the class CompleteBaZiCalculator the hour from 23:00 to 01:00 is one unit, and
  22:59 belongs to the branch before it.
\<close>

lemma Complete_hour_boundary:
  assumes "X \<in> set tianGan"
  shows "Complete_calculateHourPillar (Some X) 22 59 \<noteq> Complete_calculateHourPillar (Some X) 23 0"
    and "Complete_calculateHourPillar (Some X) 23 30 = Complete_calculateHourPillar (Some X) 0 30"
  by (simp_all add: Complete_hour_Zi)
     (simp add: Complete_calculateHourPillar_def Let_def timeToHour_def)

text \<open>
  In bazi-calculator.ts, for each of the ten day stems, the hours 23 and 0 share the
  branch and differ in the stem; the hours 22 and 23 differ in the branch.
\<close>

lemma basic_midnight_all_stems:
  "list_all (\<lambda>X. stem (calculateHourPillar (Some X) 23) \<noteq> stem (calculateHourPillar (Some X) 0)
               \<and> branch (calculateHourPillar (Some X) 23) = branch (calculateHourPillar (Some X) 0)
               \<and> branch (calculateHourPillar (Some X) 22) \<noteq> branch (calculateHourPillar (Some X) 23))
            HEAVENLY_STEMS"
  by code_simp

text \<open>
  Claim C4: for every day stem the hour pillar of 22:59 differs from the one of 23:00,
  and the hour pillar of 23:30 is the one of 00:30, stem and branch.
  \<^verbatim>\<open>calculateHourPillar\<close> of bazi-calculator.ts reduces the branch index modulo 12 but
  advances the stem by the unreduced slot number, 12 at 23 o'clock and 0 at midnight:
  for the day stem Jia the pillar of 23:30 is Wu-Zi and the pillar of 00:30 is Bing-Zi.
\<close>

theorem C4_basic_midnight_hour:
  "calculateHourPillar (Some Jia) 23 = \<lparr>stem = Some Wu, branch = Some Zi\<rparr>
   \<and> calculateHourPillar (Some Jia) 0 = \<lparr>stem = Some Bing, branch = Some Zi\<rparr>"
  by code_simp

section \<open>The day pillar\<close>

text \<open>The reference date of bazi-calculator.ts, 31 January 1900, gives Geng-Zi.\<close>

lemma basic_day_epoch:
  "calculateDayPillar (new_Date 1900 0 31 0 0) = \<lparr>stem = Some Geng, branch = Some Zi\<rparr>"
  by code_simp

text \<open>
  Claim C3: the day pillar of each implementation's reference date is the pair the
  implementation documents for it, Geng-Zi (stem index 6, branch index 0). The method
  of the class CompleteBaZiCalculator, whose comments give 1 January 1900 as Geng-Zi,
  subtracts 12 days before it adds the base indices, and returns Wu-Zi (stem index 4)
  for that date.
\<close>

theorem C3_complete_day_epoch:
  "Complete_calculateDayPillar 1900 1 1 =
     \<lparr>stem = Some Wu, branch = Some Zi, stemIndex = 4, branchIndex = 0, daysDiff = - 12\<rparr>"
  by code_simp

section \<open>The relationship table\<close>

text \<open>
  The table is total on the ten stems: every day master and every stem have a label,
  and a stem against itself is the peer.
\<close>

lemma TEN_GODS_total_on_stems:
  assumes "d \<in> set HEAVENLY_STEMS" and "s \<in> set HEAVENLY_STEMS"
  shows "\<exists>t g. TEN_GODS d = Some t \<and> t s = Some g"
  using assms by (auto simp: HEAVENLY_STEMS_def TEN_GODS_def)

lemma TEN_GODS_self:
  assumes "d \<in> set HEAVENLY_STEMS"
  shows "\<exists>t. TEN_GODS d = Some t \<and> t d = Some BiJian"
  using assms by (auto simp: HEAVENLY_STEMS_def TEN_GODS_def)

text \<open>No row of the table has an entry for a branch.\<close>

lemma TEN_GODS_no_branch:
  assumes "d \<in> set HEAVENLY_STEMS" and "b \<in> set EARTHLY_BRANCHES"
  shows "\<exists>t. TEN_GODS d = Some t \<and> t b = None"
  using assms by (auto simp: HEAVENLY_STEMS_def EARTHLY_BRANCHES_def TEN_GODS_def)

text \<open>
  Claim C5: every character of the four pillars, each stem, each branch and each hidden
  stem, is classified with one of the ten labels, and a stem against itself is the peer.
  \<^verbatim>\<open>calculateTenGods\<close> looks the branch of a pillar up in the row of the day master, which
  is keyed by stems only: in the chart of noon, 1 January 2000, with day master Jia, the
  second entry of every pillar, the one of its branch, has no label.
\<close>

theorem C5_branch_unclassified:
  "calculateTenGods (Some Jia) chart_2000 =
     Inr \<lparr>nianZhu = [(Some Geng, Some QiSha), (Some Chen, None), (Some Wu, Some PianCai),
                     (Some Yi, Some JieCai), (Some Gui, Some ZhengYin)],
          yueZhu = [(Some Wu, Some PianCai), (Some Yin, None), (Some Jia, Some BiJian),
                    (Some Bing, Some ShiShen), (Some Wu, Some PianCai)],
          riZhu = [(Some Jia, Some BiJian), (Some Yin, None), (Some Jia, Some BiJian),
                   (Some Bing, Some ShiShen), (Some Wu, Some PianCai)],
          shiZhu = [(Some Ren, Some PianYin), (Some Wu_horse, None), (Some Ding, Some ShangGuan),
                    (Some Ji, Some ZhengCai)]\<rparr>"
  by code_simp

section \<open>The true solar time\<close>

text \<open>The equation of time of the source is a sum of three sines; it stays within 4.2048 minutes.\<close>

lemma three_sines_bound:
  "\<bar>- 2.4657 * sin a + 1.5303 * sin b + - 0.2088 * sin c\<bar> \<le> (4.2048 :: real)"
proof -
  have "\<bar>- 2.4657 * sin a\<bar> \<le> 2.4657" "\<bar>1.5303 * sin b\<bar> \<le> 1.5303"
    "\<bar>- 0.2088 * sin c\<bar> \<le> 0.2088"
    by (simp_all add: abs_mult)
  then have "\<bar>- 2.4657 * sin a\<bar> + \<bar>1.5303 * sin b\<bar> + \<bar>- 0.2088 * sin c\<bar>
      \<le> 2.4657 + 1.5303 + 0.2088"
    by (intro add_mono)
  moreover have "\<bar>- 2.4657 * sin a + 1.5303 * sin b + - 0.2088 * sin c\<bar>
      \<le> \<bar>- 2.4657 * sin a\<bar> + \<bar>1.5303 * sin b\<bar> + \<bar>- 0.2088 * sin c\<bar>"
    by (intro order_trans [OF abs_triangle_ineq] add_mono order_refl abs_triangle_ineq)
  ultimately show ?thesis by simp
qed

lemma equationOfTime_bound: "\<bar>equationOfTime j\<bar> \<le> 4.2048"
  unfolding equationOfTime_def Let_def by (rule three_sines_bound)

text \<open>
  The hour count is \<open>k\<close> as soon as the clock time plus the longitude correction lies
  more than 4.2048 minutes inside the \<open>k\<close>-th hour.
\<close>

lemma rawTrueHour_eq:
  assumes "of_int k * 60 + 4.2048
             \<le> of_int h * 60 + of_int mi + (longitude loc - (timezone loc - 8) * 15) * 4"
    and "of_int h * 60 + of_int mi + (longitude loc - (timezone loc - 8) * 15) * 4 + 4.2048
           < (of_int k + 1) * 60"
  shows "rawTrueHour y m d h mi loc = k"
proof -
  define e where "e = equationOfTime (julianDay y m d h mi 0)"
  define c where "c = of_int h * 60 + of_int mi + (longitude loc - (timezone loc - 8) * 15) * 4"
  have "\<bar>e\<bar> \<le> 4.2048" unfolding e_def by (rule equationOfTime_bound)
  then have lo: "- 4.2048 \<le> e" and hi: "e \<le> 4.2048" by (simp_all add: abs_le_iff)
  have "\<lfloor>(c + e) / 60\<rfloor> = k"
  proof (rule floor_unique)
    show "of_int k \<le> (c + e) / 60" using lo assms(1) by (simp add: c_def)
    show "(c + e) / 60 < of_int k + 1" using hi assms(2) by (simp add: c_def)
  qed
  moreover have "rawTrueHour y m d h mi loc = \<lfloor>(c + e) / 60\<rfloor>"
    by (simp add: rawTrueHour_def c_def e_def algebra_simps)
  ultimately show ?thesis by simp
qed

text \<open>
  The call throws exactly when the hour count leaves the day, and what it returns
  otherwise carries the date it was given.
\<close>

lemma calculateTrueSolarTime_throws:
  "rawTrueHour y m d h mi loc \<ge> 24 \<or> rawTrueHour y m d h mi loc < 0 \<Longrightarrow>
   calculateTrueSolarTime y m d h mi loc = Inl TypeError"
  by (auto simp: calculateTrueSolarTime_def Let_def rawTrueHour_def)

lemma calculateTrueSolarTime_returns:
  assumes "calculateTrueSolarTime y m d h mi loc = Inr r"
  shows "trueYear r = y \<and> trueMonth r = m \<and> trueDay r = d
         \<and> trueHour r = rawTrueHour y m d h mi loc
         \<and> 0 \<le> trueHour r \<and> trueHour r < 24
         \<and> longitudeCorrection r = (longitude loc - (timezone loc - 8) * 15) * 4"
  using assms
  by (auto simp: calculateTrueSolarTime_def Let_def rawTrueHour_def split: if_splits)

lemma returned_longitudeCorrection:
  assumes "0 \<le> rawTrueHour y m d h mi loc" and "rawTrueHour y m d h mi loc < 24"
  shows "returned longitudeCorrection (calculateTrueSolarTime y m d h mi loc)
           = Some ((longitude loc - (timezone loc - 8) * 15) * 4)"
  using assms
  by (simp add: calculateTrueSolarTime_def Let_def rawTrueHour_def returned_def)

text \<open>The offset of timezone-calculator.ts for longitude 87.6, in minutes.\<close>

lemma calculateLongitudeOffset_minutes:
  "calculateLongitudeOffset 87.6 / (60 * 1000) = - 129.6"
  by (simp add: calculateLongitudeOffset_def)

lemma rawTrueHour_afternoon:
  "rawTrueHour y m d 14 30 \<lparr>name = n, longitude = 87.6, latitude = la, timezone = 8\<rparr> = 20"
  "rawTrueHour y m d 14 30 Urumqi = 20"
  "rawTrueHour y m d 14 30 Beijing = 22"
  by (rule rawTrueHour_eq; simp add: Urumqi_def Beijing_def)+

text \<open>
  Claim C1: the longitude correction is (L - H * 15) * 4 minutes for longitude L and
  UTC offset H hours, about -129.6 minutes at 87.6 degrees east in UTC+8 and about -14.4
  minutes at 116.4074 degrees east. \<^verbatim>\<open>calculateTrueSolarTime\<close> takes (H - 8) * 15 as the
  standard meridian, which is 0 for UTC+8: called for 14:30 of any date, it returns, and
  reports +350.4 minutes at 87.6 degrees east, +350.4672 for the city table's Urumqi and
  +465.6296 for its Beijing.
\<close>

theorem C1_longitude_correction_utc8:
  "returned longitudeCorrection
     (calculateTrueSolarTime y m d 14 30
        \<lparr>name = n, longitude = 87.6, latitude = la, timezone = 8\<rparr>) = Some 350.4
   \<and> returned longitudeCorrection (calculateTrueSolarTime y m d 14 30 Urumqi) = Some 350.4672
   \<and> returned longitudeCorrection (calculateTrueSolarTime y m d 14 30 Beijing) = Some 465.6296"
proof -
  have r: "0 \<le> rawTrueHour y m d 14 30 loc \<and> rawTrueHour y m d 14 30 loc < 24"
    if "rawTrueHour y m d 14 30 loc = 20 \<or> rawTrueHour y m d 14 30 loc = 22" for loc
    using that by auto
  have v: "returned longitudeCorrection (calculateTrueSolarTime y m d 14 30 loc)
             = Some ((longitude loc - (timezone loc - 8) * 15) * 4)"
    if "rawTrueHour y m d 14 30 loc = 20 \<or> rawTrueHour y m d 14 30 loc = 22" for loc
    using r [OF that] by (simp add: returned_longitudeCorrection)
  have "returned longitudeCorrection
          (calculateTrueSolarTime y m d 14 30
             \<lparr>name = n, longitude = 87.6, latitude = la, timezone = 8\<rparr>) = Some 350.4"
    by (subst v, rule disjI1, rule rawTrueHour_afternoon(1)) simp
  moreover have "returned longitudeCorrection (calculateTrueSolarTime y m d 14 30 Urumqi)
      = Some 350.4672"
    by (subst v, rule disjI1, rule rawTrueHour_afternoon(2)) (simp add: Urumqi_def)
  moreover have "returned longitudeCorrection (calculateTrueSolarTime y m d 14 30 Beijing)
      = Some 465.6296"
    by (subst v, rule disjI2, rule rawTrueHour_afternoon(3)) (simp add: Beijing_def)
  ultimately show ?thesis by simp
qed

lemma rawTrueHour_Beijing_evening: "rawTrueHour y m d 20 0 Beijing = 27"
  by (rule rawTrueHour_eq; simp add: Beijing_def)

text \<open>
  Claim C9: when the corrected time crosses a day boundary the returned date is rolled
  by the calendar, carrying into the month and the year (31 January rolls forward to
  1 February). \<^verbatim>\<open>calculateTrueSolarTime\<close> returns no date at all then: for Beijing at 20:00
  on 31 January 1990 the corrected hour count is 27, the day of the month is raised by
  one, and the assignment to the constant \<^verbatim>\<open>trueHour\<close> throws a TypeError. No statement of
  the method changes the month or the year.
\<close>

theorem C9_day_crossing_throws:
  "calculateTrueSolarTime 1990 1 31 20 0 Beijing = Inl TypeError
   \<and> rawTrueHour 1990 1 31 20 0 Beijing = 27"
  by (simp add: calculateTrueSolarTime_throws rawTrueHour_Beijing_evening)

section \<open>The cutover of the year pillar\<close>

text \<open>
  Claim C7, as amended. \<^verbatim>\<open>calculateYearPillar\<close> of the class CompleteBaZiCalculator gives
  every date in January, and every date in February before the 4th, the pair of the
  year before, and every other date the pair of its own year: the year it reports, and
  the whole result, are those of 31 December of that sexagenary year, and the indices are
  that year's offset from the year 4, modulo 10 and modulo 12. In bazi-calculator.ts
  the year pillar of a chart is a function of the calendar year of the date alone.
\<close>

theorem C7_complete_year_cutover:
  "ganZhiYear (Complete_calculateYearPillar y m d) = (if m = 1 \<or> (m = 2 \<and> d < 4) then y - 1 else y)
   \<and> Complete_calculateYearPillar y m d
       = Complete_calculateYearPillar (if m = 1 \<or> (m = 2 \<and> d < 4) then y - 1 else y) 12 31
   \<and> stemIndex (Complete_calculateYearPillar y m d)
       = ((if m = 1 \<or> (m = 2 \<and> d < 4) then y - 1 else y) - 4) mod 10
   \<and> branchIndex (Complete_calculateYearPillar y m d)
       = ((if m = 1 \<or> (m = 2 \<and> d < 4) then y - 1 else y) - 4) mod 12
   \<and> hd (calculateBazi_pillars workingDate) = calculateYearPillar (getFullYear workingDate)"
  by (simp add: Complete_year_indices calculateBazi_pillars_def Let_def)
     (simp add: Complete_calculateYearPillar_def)

theorem C7_complete_year_cutover_witness:
  "Complete_calculateYearPillar 2024 1 15 = Complete_calculateYearPillar 2023 12 31
   \<and> Complete_calculateYearPillar 2024 2 3 = Complete_calculateYearPillar 2023 12 31
   \<and> Complete_calculateYearPillar 2024 2 4 = Complete_calculateYearPillar 2024 12 31
   \<and> stem (Complete_calculateYearPillar 2024 1 15) = Some Gui
   \<and> branch (Complete_calculateYearPillar 2024 1 15) = Some Mao"
  using C7_complete_year_cutover [of 2024 1 15] C7_complete_year_cutover [of 2024 2 3]
    C7_complete_year_cutover [of 2024 2 4]
  by (simp add: Complete_year_symbols tianGan_def diZhi_def)

text \<open>
  Claim C7 as it is written fails for bazi-calculator.ts, whose \<^verbatim>\<open>calculateYearPillar\<close>
  takes the calendar year alone: the chart of 15 January 2024 has the year pillar of
  2024, Jia-Chen, not the one of 2023, Gui-Mao.
\<close>

theorem C7_basic_no_cutover:
  "hd (calculateBazi_pillars (new_Date 2024 0 15 9 30)) = \<lparr>stem = Some Jia, branch = Some Chen\<rparr>
   \<and> calculateYearPillar 2024 = \<lparr>stem = Some Jia, branch = Some Chen\<rparr>
   \<and> calculateYearPillar 2023 = \<lparr>stem = Some Gui, branch = Some Mao\<rparr>"
  by code_simp

section \<open>The branch of the month pillar\<close>

text \<open>
  What the branches and the table of \<^verbatim>\<open>calculateMonthPillar\<close> in the class
  CompleteBaZiCalculator amount to, month by month.
\<close>

lemma monthZhi_of_table:
  "monthZhi_of m d =
     (if m = 1 then Inr (Chou, 1)
      else if m = 2 then (if d < 4 then Inr (Chou, 1) else Inr (Yin, 2))
      else if 3 \<le> m \<and> m \<le> 12 then Inr (diZhi ! nat (m mod 12), m mod 12)
      else Inl TypeError)"
proof -
  have "m < 3 \<or> m = 3 \<or> m = 4 \<or> m = 5 \<or> m = 6 \<or> m = 7 \<or> m = 8 \<or> m = 9
    \<or> m = 10 \<or> m = 11 \<or> m = 12 \<or> m > 12" by arith
  then show ?thesis
    by (elim disjE) (simp_all add: monthZhi_of_def monthMapping_def diZhi_def)
qed

lemma basic_month_branch:
  "branch (calculateMonthPillar y m) = js_index EARTHLY_BRANCHES (js_rem (m + 1) 12)"
  by (simp add: calculateMonthPillar_def Let_def)

text \<open>
  Claim C8, as amended. In the class CompleteBaZiCalculator the branch of the month
  pillar of December comes from the entry the table \<^verbatim>\<open>monthMapping\<close> holds for month 12,
  the branch Zi with index 0, whatever the year, the day and the year stem. In
  bazi-calculator.ts the branch index of every month is (month + 1) modulo 12.
\<close>

theorem C8_complete_december:
  "monthMapping 12 = Some (Zi, 0)
   \<and> monthZhi_of 12 d = Inr (Zi, 0)
   \<and> Complete_calculateMonthPillar y 12 d ys =
       Inr \<lparr>stem = (case js_get yearGanToMonthGan ys of
                      None \<Rightarrow> None
                    | Some b \<Rightarrow> js_index tianGan (js_rem (b + 0 - 2) 10)),
             branch = Some Zi\<rparr>
   \<and> branch (calculateMonthPillar y' m) = js_index EARTHLY_BRANCHES (js_rem (m + 1) 12)"
  by (simp add: monthMapping_def monthZhi_of_def Complete_calculateMonthPillar_def Let_def
      basic_month_branch split: option.splits)

text \<open>
  Claim C8 as it is written fails for bazi-calculator.ts, which has no table and takes
  the branch index (month + 1) modulo 12: December gets index 1, the branch Chou.
\<close>

theorem C8_basic_december:
  "calculateMonthPillar 2024 12 = \<lparr>stem = Some Ding, branch = Some Chou\<rparr>
   \<and> js_rem (12 + 1) 12 = 1
   \<and> js_index EARTHLY_BRANCHES 1 = Some Chou"
  by code_simp

section \<open>Validation of the birth information\<close>

text \<open>The time pattern accepts exactly the texts of \<open>clock_text\<close>.\<close>

lemma TIME_PATTERN_accepts: "rx_test TIME_PATTERN s = clock_text s"
  by (cases s rule: clock_text.cases)
     (auto simp: rx_test_def TIME_PATTERN_def char_between_def split: if_splits)

lemma time_check:
  "(falsy_string t \<or> \<not> rx_test TIME_PATTERN (case t of None \<Rightarrow> [] | Some s \<Rightarrow> s))
     = (\<not> time_accepted t)"
  by (cases t) (auto simp: falsy_string_def time_accepted_def TIME_PATTERN_accepts)

text \<open>The messages of a record whose birth date, when present, is a valid date.\<close>

lemma validateBirthInfo_errors:
  assumes "birthDate b \<noteq> Some InvalidDate"
  shows "errors (validateBirthInfo b) =
     (if birthDate b = None then [MsgBirthDate] else [])
     @ (if time_accepted (birthTime b) then [] else [MsgBirthTime])
     @ (if falsy_string (gender b) then [MsgGender] else [])
     @ (if falsy_string (calendarType b) then [MsgCalendarType] else [])
     @ (if birthDate b \<noteq> None \<and> \<not> date_in_range (birthDate b) then [MsgYearRange] else [])"
proof (cases "birthDate b")
  case None
  then show ?thesis
    unfolding validateBirthInfo_def Let_def time_check by simp
next
  case (Some x)
  with assms obtain t where t: "x = ValidDate t" by (cases x) simp_all
  show ?thesis
    unfolding validateBirthInfo_def Let_def time_check
    by (auto simp: Some t date_in_range_def date_getFullYear_def)
qed

lemma validateBirthInfo_valid: "valid (validateBirthInfo b) = (errors (validateBirthInfo b) = [])"
  by (simp add: validateBirthInfo_def Let_def)

text \<open>
  Claim C10, as amended. For every record whose birth date, when present, is a valid
  date, \<^verbatim>\<open>validateBirthInfo\<close> returns valid exactly when the birth date is present and its
  year is between 1900 and 2100 inclusive, the birth time is one or two hour digits (0 to
  9, 00 to 19 or 20 to 23), a colon and two minute digits from 00 to 59, the gender is
  not empty and the calendar type is not empty. It returns valid exactly when its list
  of messages is empty, and the list has one message for each of the four checks that
  fails.
\<close>

theorem C10_validateBirthInfo:
  assumes "birthDate b \<noteq> Some InvalidDate"
  shows "valid (validateBirthInfo b)
           = (date_in_range (birthDate b) \<and> time_accepted (birthTime b)
              \<and> \<not> falsy_string (gender b) \<and> \<not> falsy_string (calendarType b))
         \<and> valid (validateBirthInfo b) = (errors (validateBirthInfo b) = [])
         \<and> length (errors (validateBirthInfo b)) = failed_checks b"
proof -
  have d: "birthDate b = None \<Longrightarrow> \<not> date_in_range (birthDate b)"
    by (simp add: date_in_range_def)
  show ?thesis
    unfolding validateBirthInfo_valid validateBirthInfo_errors [OF assms] failed_checks_def
    using d by auto
qed

theorem C10_validateBirthInfo_witness:
  "birthDate (sample_birth ''09:30'') \<noteq> Some InvalidDate
   \<and> valid (validateBirthInfo (sample_birth ''09:30''))
   \<and> errors (validateBirthInfo (sample_birth ''09:30'')) = []
   \<and> failed_checks (sample_birth ''09:30'') = 0
   \<and> birthDate ((sample_birth ''24:00'')\<lparr>gender := Some []\<rparr>) \<noteq> Some InvalidDate
   \<and> \<not> valid (validateBirthInfo ((sample_birth ''24:00'')\<lparr>gender := Some []\<rparr>))
   \<and> length (errors (validateBirthInfo ((sample_birth ''24:00'')\<lparr>gender := Some []\<rparr>))) = 2"
proof -
  have y: "getFullYear (new_Date 2000 0 1 0 0) = 2000" by code_simp
  have a: "date_in_range (Some (ValidDate (new_Date 2000 0 1 0 0)))"
    by (simp add: date_in_range_def y)
  have t1: "time_accepted (Some ''09:30'')" by (simp add: time_accepted_def char_between_def)
  have t2: "\<not> time_accepted (Some ''24:00'')" by (simp add: time_accepted_def char_between_def)
  have v1: "birthDate (sample_birth ''09:30'') \<noteq> Some InvalidDate"
    by (simp add: sample_birth_def)
  have v2: "birthDate ((sample_birth ''24:00'')\<lparr>gender := Some []\<rparr>) \<noteq> Some InvalidDate"
    by (simp add: sample_birth_def)
  show ?thesis
    using C10_validateBirthInfo [OF v1] C10_validateBirthInfo [OF v2]
    by (simp add: sample_birth_def a t1 t2 falsy_string_def failed_checks_def)
qed

text \<open>
  Claim C10 as it is written fails: the birth time 9:30, which is not of the format
  HH:MM with two hour digits, is accepted.
\<close>

theorem C10_single_digit_hour:
  "valid (validateBirthInfo (sample_birth ''9:30'')) \<and> \<not> HH_MM ''9:30''"
proof -
  have y: "getFullYear (new_Date 2000 0 1 0 0) = 2000" by code_simp
  have "rx_test TIME_PATTERN ''9:30''" by (simp add: TIME_PATTERN_accepts char_between_def)
  then show ?thesis
    by (simp add: validateBirthInfo_def Let_def sample_birth_def falsy_string_def
        date_getFullYear_def y HH_MM_def)
qed

end
